theory Spec2Isabelle
  imports Complex_Main "HOL-Library.AList"
begin

section \<open>Configuration constants and data model of \<open>MindMap.py\<close>\<close>

text \<open>
  Floats are modelled as reals, Python ints as \<open>int\<close>.  A Python \<open>dict\<close> is an
  association list in insertion order: \<open>d[k] = v\<close> is \<open>AList.update k v d\<close> (an
  existing key keeps its place, a new key goes to the end), \<open>d.get(k)\<close> is
  \<open>map_of d k\<close>, \<open>d.pop(k, None)\<close> is \<open>AList.delete k d\<close> and iteration runs
  over the list from the left.  Exceptions are values of type \<open>error\<close>; a
  function that can raise returns \<open>error + 'a\<close> with the exception on the left.
\<close>

definition NODE_W :: real where "NODE_W = 160"
definition NODE_H :: real where "NODE_H = 56"
definition HORIZ_GAP :: real where "HORIZ_GAP = 60"
definition VERT_GAP :: real where "VERT_GAP = 36"
definition NODE_MARGIN :: real where "NODE_MARGIN = 18"
definition ZOOM_MIN :: real where "ZOOM_MIN = 4 / 10"
definition ZOOM_MAX :: real where "ZOOM_MAX = 25 / 10"

definition PALETTE_COLORS :: "string list" where
  "PALETTE_COLORS = [''#B9C2FF'', ''#FFB3BE'', ''#FFF49A'', ''#C6FFB0'', ''#B7F0FF'',
     ''#DDB096'', ''#B5A0DD'', ''#9DDDD0'', ''#DDA0B7'', ''#B1DD53'']"

definition LEVEL_COLORS :: "string list" where
  "LEVEL_COLORS = PALETTE_COLORS"

datatype error = KeyError | IndexError

type_synonym point = "real \<times> real"

text \<open>The per-node dictionary.  The keys \<open>w\<close> and \<open>h\<close> are absent from a node
  that was loaded from a file and never resized, hence the options.\<close>

record node =
  n_text :: string
  n_x :: real
  n_y :: real
  n_children :: "int list"
  n_fill :: "string option"
  n_custom :: bool
  n_w :: "real option"
  n_h :: "real option"

text \<open>The fields of the dataclass \<open>Workspace\<close> that are not Tk widgets or
  selection and drag state.\<close>

record workspace =
  ws_nodes :: "(int \<times> node) list"
  ws_parent :: "(int \<times> int option) list"
  ws_edge_offsets :: "((int \<times> int) \<times> real) list"
  ws_palette_index :: nat
  ws_root_id :: "int option"
  ws_next_id :: int
  ws_scale :: real
  ws_offset_x :: real
  ws_offset_y :: real

text \<open>\<open>self.parent.get(k)\<close>: \<open>None\<close> both for a missing key and for a key
  stored with the value \<open>None\<close>.\<close>

definition parent_get :: "workspace \<Rightarrow> int \<Rightarrow> int option" where
  "parent_get ws k = (case map_of (ws_parent ws) k of None \<Rightarrow> None | Some v \<Rightarrow> v)"

definition children_of :: "workspace \<Rightarrow> int \<Rightarrow> error + int list" where
  "children_of ws k =
     (case map_of (ws_nodes ws) k of None \<Rightarrow> Inl KeyError | Some nd \<Rightarrow> Inr (n_children nd))"

section \<open>Coordinate helpers\<close>

definition to_canvas_point :: "workspace \<Rightarrow> real \<Rightarrow> real \<Rightarrow> point" where
  "to_canvas_point ws x y = (ws_offset_x ws + x * ws_scale ws, ws_offset_y ws + y * ws_scale ws)"

definition from_canvas_point :: "workspace \<Rightarrow> real \<Rightarrow> real \<Rightarrow> point" where
  "from_canvas_point ws x y =
     (if ws_scale ws = 0 then (x, y)
      else ((x - ws_offset_x ws) / ws_scale ws, (y - ws_offset_y ws) / ws_scale ws))"

definition node_center :: "workspace \<Rightarrow> int \<Rightarrow> error + point" where
  "node_center ws nid =
     (case map_of (ws_nodes ws) nid of
        None \<Rightarrow> Inl KeyError
      | Some nd \<Rightarrow> Inr (to_canvas_point ws (n_x nd) (n_y nd)))"

text \<open>\<open>self.ws.scale or 1.0\<close>\<close>

definition scale_or_one :: "workspace \<Rightarrow> real" where
  "scale_or_one ws = (if ws_scale ws = 0 then 1 else ws_scale ws)"

definition node_bbox :: "workspace \<Rightarrow> int \<Rightarrow> error + (real \<times> real \<times> real \<times> real)" where
  "node_bbox ws nid =
     (case node_center ws nid of
        Inl e \<Rightarrow> Inl e
      | Inr (cx, cy) \<Rightarrow>
          (let base_w = (case map_of (ws_nodes ws) nid of
                           None \<Rightarrow> NODE_W
                         | Some nd \<Rightarrow> (case n_w nd of None \<Rightarrow> NODE_W | Some w \<Rightarrow> w));
               base_h = (case map_of (ws_nodes ws) nid of
                           None \<Rightarrow> NODE_H
                         | Some nd \<Rightarrow> (case n_h nd of None \<Rightarrow> NODE_H | Some h \<Rightarrow> h));
               scale = scale_or_one ws;
               half_w = (base_w * scale) / 2;
               half_h = (base_h * scale) / 2
           in Inr (cx - half_w, cy - half_h, cx + half_w, cy + half_h)))"

section \<open>Ellipse exit point\<close>

definition hypot :: "real \<Rightarrow> real \<Rightarrow> real" where
  "hypot a b = sqrt (a * a + b * b)"

text \<open>The first half of \<open>_edge_exit_point\<close>: the vector \<open>(dx * t, dy * t)\<close> from
  the centre to the point \<open>(sx, sy)\<close> as it is before the margin is added.\<close>

definition exit_vector :: "real \<Rightarrow> point \<Rightarrow> point \<Rightarrow> point" where
  "exit_vector scale c target =
     (let a = max (NODE_W * scale / 2) 1;
          b = max (NODE_H * scale / 2) 1;
          dx0 = fst target - fst c;
          dy0 = snd target - snd c;
          degenerate = (\<bar>dx0\<bar> < 1 / 10000 \<and> \<bar>dy0\<bar> < 1 / 10000);
          dx = (if degenerate then 0 else dx0);
          dy = (if degenerate then b else dy0);
          factor0 = sqrt ((dx * dx) / (a * a) + (dy * dy) / (b * b));
          factor = (if factor0 = 0 then 1 else factor0);
          t = 1 / factor
      in (dx * t, dy * t))"

definition exit_point_on_ellipse :: "workspace \<Rightarrow> int \<Rightarrow> point \<Rightarrow> error + point" where
  "exit_point_on_ellipse ws nid target =
     (case node_center ws nid of
        Inl e \<Rightarrow> Inl e
      | Inr c \<Rightarrow>
          (let v = exit_vector (ws_scale ws) c target
           in Inr (fst c + fst v, snd c + snd v)))"

definition edge_exit_point :: "workspace \<Rightarrow> int \<Rightarrow> point \<Rightarrow> error + point" where
  "edge_exit_point ws nid target =
     (case node_center ws nid of
        Inl e \<Rightarrow> Inl e
      | Inr c \<Rightarrow>
          (let v = exit_vector (ws_scale ws) c target;
               sx = fst c + fst v;
               sy = snd c + snd v;
               margin = max (15 / 10) (ws_scale ws * (12 / 10));
               length0 = hypot (fst v) (snd v);
               len = (if length0 = 0 then 1 else length0)
           in Inr (sx + (fst v / len) * margin, sy + (snd v / len) * margin)))"

section \<open>View transforms\<close>

text \<open>The body of \<open>zoom\<close> up to its call of \<open>redraw\<close>.  \<open>canvas_size\<close> stands for
  \<open>winfo_width()\<close> and \<open>winfo_height()\<close> of the Tk canvas, read when no origin is
  given.\<close>

definition zoom_view :: "real \<Rightarrow> point option \<Rightarrow> point \<Rightarrow> workspace \<Rightarrow> workspace option" where
  "zoom_view factor origin canvas_size ws =
     (let old_scale = ws_scale ws;
          new_scale = max ZOOM_MIN (min ZOOM_MAX (old_scale * factor))
      in if \<bar>new_scale - old_scale\<bar> < 1 / 1000 then None
         else
           (let org = (case origin of
                         None \<Rightarrow> (fst canvas_size / 2, snd canvas_size / 2)
                       | Some p \<Rightarrow> p);
                cx = fst org;
                cy = snd org;
                scale_ratio = (if old_scale \<noteq> 0 then new_scale / old_scale else 1)
            in Some (ws\<lparr>ws_offset_x := cx - scale_ratio * (cx - ws_offset_x ws),
                        ws_offset_y := cy - scale_ratio * (cy - ws_offset_y ws),
                        ws_scale := new_scale\<rparr>)))"

section \<open>Edge router\<close>

text \<open>\<open>xs.index(v)\<close>: the first position of \<open>v\<close>, \<open>None\<close> where Python raises
  \<open>ValueError\<close>.\<close>

fun index_of :: "'a list \<Rightarrow> 'a \<Rightarrow> nat option" where
  "index_of [] v = None"
| "index_of (x # xs) v =
     (if x = v then Some 0 else (case index_of xs v of None \<Rightarrow> None | Some i \<Rightarrow> Some (Suc i)))"

text \<open>\<open>math.copysign(m, s)\<close> on reals.\<close>

definition copysign :: "real \<Rightarrow> real \<Rightarrow> real" where
  "copysign m s = (if s < 0 then - \<bar>m\<bar> else \<bar>m\<bar>)"

text \<open>One round of the obstacle loop of \<open>_edge_control_points\<close>: the node
  \<open>other\<close> pushes the two control points away when its centre projects strictly
  inside the segment and is closer to it than the safety distance.\<close>

definition obstacle_push ::
  "workspace \<Rightarrow> int \<Rightarrow> int \<Rightarrow> point \<Rightarrow> point \<Rightarrow> real \<Rightarrow> real \<Rightarrow> (int \<times> node) \<Rightarrow>
     point \<times> point \<Rightarrow> point \<times> point" where
  "obstacle_push ws pid cid startp endp dst smoothing other cps =
     (if fst other = pid \<or> fst other = cid then cps
      else
        (let sx = fst startp; sy = snd startp;
             dx = fst endp - sx; dy = snd endp - sy;
             scale = scale_or_one ws;
             tx = - (dy / dst); ty = dx / dst;
             safety = (max NODE_W NODE_H * scale) * (1 / 2);
             node_radius = hypot (NODE_W * scale / 2) (NODE_H * scale / 2) + NODE_MARGIN * scale;
             oc = to_canvas_point ws (n_x (snd other)) (n_y (snd other));
             ox = fst oc; oy = snd oc;
             seg_len_sq = max (dst ^ 2) 1;
             t = ((ox - sx) * dx + (oy - sy) * dy) / seg_len_sq
         in if t \<le> 0 \<or> t \<ge> 1 then cps
            else
              (let closest_x = sx + dx * t;
                   closest_y = sy + dy * t;
                   vec_x = closest_x - ox;
                   vec_y = closest_y - oy;
                   separation = hypot vec_x vec_y;
                   clearance = separation - node_radius
               in if clearance \<ge> safety then cps
                  else
                    (let influence = max 0 (min 1 ((safety - clearance) / safety)) * smoothing;
                         push_dir_x = (if separation \<noteq> 0 then vec_x / separation else tx);
                         push_dir_y = (if separation \<noteq> 0 then vec_y / separation else ty);
                         push_mag = min (influence * (node_radius * (45 / 100) + dst * (18 / 100)))
                                        (dst * (4 / 10));
                         push_x = push_dir_x * push_mag;
                         push_y = push_dir_y * push_mag;
                         w1r = (1 - t) powr (13 / 10);
                         w2r = t powr (13 / 10);
                         total = w1r + w2r;
                         w1 = (if total \<noteq> 0 then w1r / total else w1r);
                         w2 = (if total \<noteq> 0 then w2r / total else w2r);
                         cp1 = fst cps; cp2 = snd cps
                     in ((fst cp1 + push_x * w1, snd cp1 + push_y * w1),
                         (fst cp2 + push_x * w2, snd cp2 + push_y * w2))))))"

definition clamp_point :: "point \<Rightarrow> point \<Rightarrow> point \<Rightarrow> real \<Rightarrow> real \<Rightarrow> real \<Rightarrow> point \<Rightarrow> point" where
  "clamp_point startp n t min_along max_along max_perp p =
     (let rel_x = fst p - fst startp;
          rel_y = snd p - snd startp;
          along = max min_along (min max_along (rel_x * fst n + rel_y * snd n));
          perp0 = rel_x * fst t + rel_y * snd t;
          perp = (if \<bar>perp0\<bar> > max_perp then copysign max_perp perp0 else perp0)
      in (fst startp + fst n * along + fst t * perp, snd startp + snd n * along + snd t * perp))"

text \<open>The body of the loop of the local function \<open>orient\<close> for one control
  point: the moved point and the adjustment it cost.\<close>

definition orient_point ::
  "point \<Rightarrow> real \<Rightarrow> real \<Rightarrow> real \<Rightarrow> point \<Rightarrow> real \<Rightarrow> real \<Rightarrow> real \<Rightarrow> point \<Rightarrow> point \<times> real" where
  "orient_point startp dx dy dst t lateral min_offset base_sign p =
     (let signed_distance = ((fst p - fst startp) * dy - (snd p - snd startp) * dx) / dst;
          desired = (if base_sign \<noteq> 0 then base_sign
                     else copysign 1 (if signed_distance \<noteq> 0 then signed_distance
                                      else if lateral \<noteq> 0 then lateral else 1))
      in if signed_distance * desired < min_offset
         then (let delta = min_offset - signed_distance * desired
               in ((fst p + fst t * desired * delta, snd p + snd t * desired * delta), delta))
         else (p, 0))"

definition orient ::
  "point \<Rightarrow> real \<Rightarrow> real \<Rightarrow> real \<Rightarrow> point \<Rightarrow> real \<Rightarrow> real \<Rightarrow> point \<Rightarrow> point \<Rightarrow> real \<Rightarrow>
     point \<times> point \<times> real" where
  "orient startp dx dy dst t lateral min_offset cp1 cp2 base_sign =
     (let r1 = orient_point startp dx dy dst t lateral min_offset base_sign cp1;
          r2 = orient_point startp dx dy dst t lateral min_offset base_sign cp2
      in (fst r1, fst r2, snd r1 + snd r2))"

text \<open>The body of \<open>_edge_control_points\<close> once \<open>siblings\<close>, the children list
  of the parent, has been read.\<close>

definition control_points ::
  "workspace \<Rightarrow> int list \<Rightarrow> int \<Rightarrow> int \<Rightarrow> point \<Rightarrow> point \<Rightarrow> real \<Rightarrow> point \<times> point" where
  "control_points ws siblings pid cid startp endp extra_lateral =
          (let sx = fst startp; sy = snd startp;
               ex = fst endp; ey = snd endp;
               dx = ex - sx; dy = ey - sy;
               dst = max (hypot dx dy) 1;
               spread = (if length siblings > 1 \<and> cid \<in> set siblings
                         then real (the (index_of siblings cid)) - (real (length siblings) - 1) / 2
                         else 0);
               scale = scale_or_one ws;
               smoothing = min 1 (max (1 / 4) (dst / (NODE_W * scale * (125 / 100))));
               lateral0 = spread * NODE_H * scale * (32 / 100) * smoothing;
               nx = dx / dst; ny = dy / dst;
               tx = - ny; ty = nx;
               base_pull0 = min (max (dst * (22 / 100)) (NODE_W * scale * (3 / 10)))
                                (NODE_W * scale * (105 / 100));
               base_pull1 = base_pull0 * (75 / 100 + smoothing * (55 / 100));
               short = (dst < NODE_W * scale * (75 / 100));
               base_pull = (if short then dst * (3 / 10) else base_pull1);
               lateral1 = (if short then lateral0 * (4 / 10) else lateral0);
               lateral = lateral1 + extra_lateral;
               cp1a = (sx + nx * base_pull + tx * lateral, sy + ny * base_pull + ty * lateral);
               cp2a = (ex - nx * base_pull + tx * lateral, ey - ny * base_pull + ty * lateral);
               pushed = fold (obstacle_push ws pid cid startp endp dst smoothing) (ws_nodes ws)
                          (cp1a, cp2a);
               max_perp = max (NODE_H * scale * ((4 / 10) * smoothing + 18 / 100)) (dst * (22 / 100));
               min_along = dst * (1 / 10);
               max_along = dst - min_along;
               cp1 = clamp_point startp (nx, ny) (tx, ty) min_along max_along max_perp (fst pushed);
               cp2 = clamp_point startp (nx, ny) (tx, ty) min_along max_along max_perp (snd pushed);
               min_offset = NODE_H * scale * (1 / 10) + 3;
               pos = orient startp dx dy dst (tx, ty) lateral min_offset cp1 cp2 1;
               neg = orient startp dx dy dst (tx, ty) lateral min_offset cp1 cp2 (- 1);
               bias = (if lateral \<ge> 0 then 4 / 100 else - (4 / 100))
           in if snd (snd pos) + max 0 (- bias) \<le> snd (snd neg) + max 0 bias
              then (fst pos, fst (snd pos))
              else (fst neg, fst (snd neg)))"

definition edge_control_points ::
  "workspace \<Rightarrow> int \<Rightarrow> int \<Rightarrow> point \<Rightarrow> point \<Rightarrow> real \<Rightarrow> error + (point \<times> point)" where
  "edge_control_points ws pid cid startp endp extra_lateral =
     (case children_of ws pid of
        Inl e \<Rightarrow> Inl e
      | Inr siblings \<Rightarrow> Inr (control_points ws siblings pid cid startp endp extra_lateral))"

definition edge_offset_steps :: "real list" where
  "edge_offset_steps = [0, 20, - 20, 40, - 40, 60, - 60, 80, - 80]"

text \<open>The loop of \<open>_edge_offset_candidates\<close>, with \<open>offsets\<close> as the accumulator.\<close>

fun offsets_loop :: "real \<Rightarrow> real list \<Rightarrow> real list \<Rightarrow> real list" where
  "offsets_loop base offsets [] = offsets"
| "offsets_loop base offsets (step # steps) =
     (let candidate = base + step
      in if offsets = [] \<or> \<bar>last offsets - candidate\<bar> > 1 / 1000000
         then offsets_loop base (offsets @ [candidate]) steps
         else offsets_loop base offsets steps)"

definition edge_offset_candidates :: "real \<Rightarrow> real list" where
  "edge_offset_candidates base = offsets_loop base [] edge_offset_steps"

definition bezier_point :: "point \<Rightarrow> point \<Rightarrow> point \<Rightarrow> point \<Rightarrow> real \<Rightarrow> point" where
  "bezier_point startp cp1 cp2 endp t =
     (let mt = 1 - t
      in ((mt ^ 3) * fst startp + 3 * (mt ^ 2) * t * fst cp1 + 3 * mt * (t ^ 2) * fst cp2
            + (t ^ 3) * fst endp,
          (mt ^ 3) * snd startp + 3 * (mt ^ 2) * t * snd cp1 + 3 * mt * (t ^ 2) * snd cp2
            + (t ^ 3) * snd endp))"

definition sample_edge_points :: "point \<Rightarrow> point \<Rightarrow> point \<Rightarrow> point \<Rightarrow> nat \<Rightarrow> point list" where
  "sample_edge_points startp cp1 cp2 endp steps0 =
     (let steps = (if steps0 < 2 then 2 else steps0)
      in map (\<lambda>i. bezier_point startp cp1 cp2 endp (real i / real steps)) [0 ..< steps + 1])"

definition points_close :: "point \<Rightarrow> point \<Rightarrow> real \<Rightarrow> bool" where
  "points_close a b tol = (\<bar>fst a - fst b\<bar> \<le> tol \<and> \<bar>snd a - snd b\<bar> \<le> tol)"

definition shares_endpoint :: "point \<Rightarrow> point \<Rightarrow> point \<Rightarrow> point \<Rightarrow> bool" where
  "shares_endpoint start_a end_a start_b end_b =
     (points_close start_a start_b 6 \<or> points_close start_a end_b 6
      \<or> points_close end_a start_b 6 \<or> points_close end_a end_b 6)"

definition segments_share_endpoint :: "point \<Rightarrow> point \<Rightarrow> point \<Rightarrow> point \<Rightarrow> bool" where
  "segments_share_endpoint a_start a_end b_start b_end =
     (points_close a_start b_start (15 / 10) \<or> points_close a_start b_end (15 / 10)
      \<or> points_close a_end b_start (15 / 10) \<or> points_close a_end b_end (15 / 10))"

definition orientation :: "point \<Rightarrow> point \<Rightarrow> point \<Rightarrow> real" where
  "orientation a b c = (fst b - fst a) * (snd c - snd a) - (snd b - snd a) * (fst c - fst a)"

definition on_segment :: "point \<Rightarrow> point \<Rightarrow> point \<Rightarrow> bool" where
  "on_segment a b c =
     (min (fst a) (fst c) - 1 / 1000000 \<le> fst b \<and> fst b \<le> max (fst a) (fst c) + 1 / 1000000
      \<and> min (snd a) (snd c) - 1 / 1000000 \<le> snd b \<and> snd b \<le> max (snd a) (snd c) + 1 / 1000000)"

definition segments_intersect :: "point \<Rightarrow> point \<Rightarrow> point \<Rightarrow> point \<Rightarrow> bool" where
  "segments_intersect p1 p2 q1 q2 =
     (let o1 = orientation p1 p2 q1;
          o2 = orientation p1 p2 q2;
          o3 = orientation q1 q2 p1;
          o4 = orientation q1 q2 p2;
          tol = 1 / 1000000
      in if ((o1 > tol \<and> o2 < - tol) \<or> (o1 < - tol \<and> o2 > tol))
            \<and> ((o3 > tol \<and> o4 < - tol) \<or> (o3 < - tol \<and> o4 > tol)) then True
         else if \<bar>o1\<bar> \<le> tol \<and> on_segment p1 q1 p2 then True
         else if \<bar>o2\<bar> \<le> tol \<and> on_segment p1 q2 p2 then True
         else if \<bar>o3\<bar> \<le> tol \<and> on_segment q1 p1 q2 then True
         else if \<bar>o4\<bar> \<le> tol \<and> on_segment q1 p2 q2 then True
         else False)"

text \<open>\<open>zip(points, points[1:])\<close>\<close>

definition segments_of :: "point list \<Rightarrow> (point \<times> point) list" where
  "segments_of ps = zip ps (tl ps)"

definition paths_cross :: "point list \<Rightarrow> point list \<Rightarrow> bool" where
  "paths_cross a_points b_points =
     list_ex (\<lambda>sa. list_ex (\<lambda>sb.
        \<not> segments_share_endpoint (fst sa) (snd sa) (fst sb) (snd sb)
        \<and> segments_intersect (fst sa) (snd sa) (fst sb) (snd sb)) (segments_of b_points))
       (segments_of a_points)"

text \<open>An entry of \<open>drawn_paths\<close>.\<close>

record drawn_path =
  dp_points :: "point list"
  dp_start :: point
  dp_end :: point

definition path_intersects :: "point list \<Rightarrow> drawn_path list \<Rightarrow> point \<Rightarrow> point \<Rightarrow> bool" where
  "path_intersects points existing startp endp =
     list_ex (\<lambda>info. \<not> shares_endpoint startp endp (dp_start info) (dp_end info)
                    \<and> paths_cross points (dp_points info)) existing"

text \<open>The candidate loop of \<open>_render_edge\<close>: it leaves at the first offset whose
  polyline crosses no drawn path; \<open>None\<close> is \<open>chosen_points is None\<close> after the
  loop.\<close>

fun try_candidates ::
  "workspace \<Rightarrow> int \<Rightarrow> int \<Rightarrow> point \<Rightarrow> point \<Rightarrow> drawn_path list \<Rightarrow> real list \<Rightarrow>
     error + (point list \<times> real) option" where
  "try_candidates ws pid cid startp endp drawn [] = Inr None"
| "try_candidates ws pid cid startp endp drawn (offset # rest) =
     (case edge_control_points ws pid cid startp endp offset of
        Inl e \<Rightarrow> Inl e
      | Inr cps \<Rightarrow>
          (let points = sample_edge_points startp (fst cps) (snd cps) endp 32
           in if \<not> path_intersects points drawn startp endp then Inr (Some (points, offset))
              else try_candidates ws pid cid startp endp drawn rest))"

text \<open>The start and end point of an edge: the two exit points, both nudged
  towards their centres when they nearly coincide.\<close>

definition edge_endpoints :: "workspace \<Rightarrow> int \<Rightarrow> int \<Rightarrow> error + (point \<times> point)" where
  "edge_endpoints ws pid cid =
     (case node_center ws pid of
        Inl e \<Rightarrow> Inl e
      | Inr pc \<Rightarrow>
     (case node_center ws cid of
        Inl e \<Rightarrow> Inl e
      | Inr cc \<Rightarrow>
     (case edge_exit_point ws pid cc of
        Inl e \<Rightarrow> Inl e
      | Inr start0 \<Rightarrow>
     (case edge_exit_point ws cid pc of
        Inl e \<Rightarrow> Inl e
      | Inr end0 \<Rightarrow>
          (if \<bar>fst start0 - fst end0\<bar> + \<bar>snd start0 - snd end0\<bar> < 6
           then Inr ((fst start0 * (9 / 10) + fst pc * (1 / 10),
                      snd start0 * (9 / 10) + snd pc * (1 / 10)),
                     (fst end0 * (9 / 10) + fst cc * (1 / 10),
                      snd end0 * (9 / 10) + snd cc * (1 / 10)))
           else Inr (start0, end0))))))"

definition render_edge ::
  "workspace \<Rightarrow> int \<Rightarrow> int \<Rightarrow> drawn_path list \<Rightarrow> error + (workspace \<times> drawn_path list)" where
  "render_edge ws pid cid drawn_paths =
     (case edge_endpoints ws pid cid of
        Inl e \<Rightarrow> Inl e
      | Inr se \<Rightarrow>
          (let startp = fst se; endp = snd se;
               base_offset = (case map_of (ws_edge_offsets ws) (pid, cid) of
                                None \<Rightarrow> 0 | Some b \<Rightarrow> b);
               candidates = edge_offset_candidates base_offset
           in case try_candidates ws pid cid startp endp drawn_paths candidates of
                Inl e \<Rightarrow> Inl e
              | Inr (Some chosen) \<Rightarrow>
                  Inr (ws\<lparr>ws_edge_offsets :=
                            AList.update (pid, cid) (snd chosen) (ws_edge_offsets ws)\<rparr>,
                       drawn_paths @ [\<lparr>dp_points = fst chosen, dp_start = startp, dp_end = endp\<rparr>])
              | Inr None \<Rightarrow>
                  (if candidates = [] then Inl IndexError
                   else
                     (let fallback_offset = last candidates
                      in case edge_control_points ws pid cid startp endp fallback_offset of
                           Inl e \<Rightarrow> Inl e
                         | Inr cps \<Rightarrow>
                             Inr (ws\<lparr>ws_edge_offsets :=
                                       AList.update (pid, cid) fallback_offset (ws_edge_offsets ws)\<rparr>,
                                  drawn_paths @
                                    [\<lparr>dp_points = sample_edge_points startp (fst cps) (snd cps) endp 32,
                                      dp_start = startp, dp_end = endp\<rparr>])))))"

text \<open>\<open>_edges\<close>: every (parent, child) pair, parents in dictionary order and
  children in list order.\<close>

definition edges :: "workspace \<Rightarrow> (int \<times> int) list" where
  "edges ws = concat (map (\<lambda>entry. map (\<lambda>cid. (fst entry, cid)) (n_children (snd entry)))
                        (ws_nodes ws))"

fun render_edges ::
  "workspace \<Rightarrow> (int \<times> int) list \<Rightarrow> drawn_path list \<Rightarrow> error + (workspace \<times> drawn_path list)" where
  "render_edges ws [] drawn = Inr (ws, drawn)"
| "render_edges ws (e # es) drawn =
     (case render_edge ws (fst e) (snd e) drawn of
        Inl err \<Rightarrow> Inl err
      | Inr r \<Rightarrow> render_edges (fst r) es (snd r))"

text \<open>\<open>redraw\<close> without the canvas: stale keys leave the edge-offset memory,
  then every edge is routed in turn against the paths drawn before it.\<close>

definition redraw :: "workspace \<Rightarrow> error + workspace" where
  "redraw ws =
     (let es = edges ws;
          pruned = filter (\<lambda>kv. fst kv \<in> set es) (ws_edge_offsets ws)
      in case render_edges (ws\<lparr>ws_edge_offsets := pruned\<rparr>) es [] of
           Inl e \<Rightarrow> Inl e
         | Inr r \<Rightarrow> Inr (fst r))"

definition zoom :: "real \<Rightarrow> point option \<Rightarrow> point \<Rightarrow> workspace \<Rightarrow> error + workspace" where
  "zoom factor origin canvas_size ws =
     (case zoom_view factor origin canvas_size ws of
        None \<Rightarrow> Inr ws
      | Some ws' \<Rightarrow> redraw ws')"

text \<open>The origin \<open>zoom\<close> works with: the given one, else the canvas centre.\<close>

definition zoom_origin :: "point option \<Rightarrow> point \<Rightarrow> point" where
  "zoom_origin origin canvas_size =
     (case origin of None \<Rightarrow> (fst canvas_size / 2, snd canvas_size / 2) | Some p \<Rightarrow> p)"

text \<open>\<open>self.ws.edge_offsets.get((pid, cid), 0.0)\<close>\<close>

definition remembered_offset :: "workspace \<Rightarrow> int \<Rightarrow> int \<Rightarrow> real" where
  "remembered_offset ws pid cid =
     (case map_of (ws_edge_offsets ws) (pid, cid) of None \<Rightarrow> 0 | Some b \<Rightarrow> b)"

section \<open>Example workspaces\<close>

definition plain_node :: "real \<Rightarrow> real \<Rightarrow> int list \<Rightarrow> node" where
  "plain_node x y cs =
     \<lparr>n_text = ''n'', n_x = x, n_y = y, n_children = cs, n_fill = Some ''#B9C2FF'',
      n_custom = True, n_w = Some NODE_W, n_h = Some NODE_H\<rparr>"

definition empty_ws :: workspace where
  "empty_ws = \<lparr>ws_nodes = [], ws_parent = [], ws_edge_offsets = [], ws_palette_index = 0,
      ws_root_id = None, ws_next_id = 1, ws_scale = 1, ws_offset_x = 0, ws_offset_y = 0\<rparr>"

text \<open>A root with one child to its right.\<close>

definition pair_ws :: workspace where
  "pair_ws = empty_ws\<lparr>ws_nodes := [(1, plain_node 0 0 [2]), (2, plain_node 300 0 [])],
      ws_parent := [(1, None), (2, Some 1)], ws_root_id := Some 1, ws_next_id := 3,
      ws_palette_index := 2\<rparr>"

section \<open>Placement helpers\<close>

definition is_position_free :: "workspace \<Rightarrow> real \<Rightarrow> real \<Rightarrow> bool" where
  "is_position_free ws x y =
     (if ws_nodes ws = [] then True
      else
        (let threshold_x = NODE_W + NODE_MARGIN;
             threshold_y = NODE_H + NODE_MARGIN
         in \<not> list_ex (\<lambda>entry. \<bar>x - n_x (snd entry)\<bar> < threshold_x
                                \<and> \<bar>y - n_y (snd entry)\<bar> < threshold_y) (ws_nodes ws)))"

text \<open>The cells \<open>(dx, dy)\<close> that the two inner loops of \<open>_find_free_position\<close>
  visit for one radius, in their order: \<open>dx\<close> outside, \<open>dy\<close> inside, the cells
  off the border of the square skipped.\<close>

definition ring :: "int \<Rightarrow> (int \<times> int) list" where
  "ring radius =
     concat (map (\<lambda>dx. concat (map (\<lambda>dy.
         if \<bar>dx\<bar> \<noteq> radius \<and> \<bar>dy\<bar> \<noteq> radius then [] else [(dx, dy)])
       [- radius .. radius])) [- radius .. radius])"

definition ring_cells :: "(int \<times> int) list" where
  "ring_cells = concat (map ring [1 .. 8])"

definition grid_point :: "real \<Rightarrow> real \<Rightarrow> int \<times> int \<Rightarrow> point" where
  "grid_point x y cell =
     (let step_x = NODE_W + HORIZ_GAP;
          step_y = NODE_H + VERT_GAP
      in (x + real_of_int (fst cell) * step_x, y + real_of_int (snd cell) * step_y))"

fun first_free :: "workspace \<Rightarrow> real \<Rightarrow> real \<Rightarrow> (int \<times> int) list \<Rightarrow> point option" where
  "first_free ws x y [] = None"
| "first_free ws x y (cell # cells) =
     (let candidate = grid_point x y cell
      in if is_position_free ws (fst candidate) (snd candidate) then Some candidate
         else first_free ws x y cells)"

definition find_free_position :: "workspace \<Rightarrow> real \<Rightarrow> real \<Rightarrow> point" where
  "find_free_position ws x y =
     (if is_position_free ws x y then (x, y)
      else
        (case first_free ws x y ring_cells of
           Some p \<Rightarrow> p
         | None \<Rightarrow> grid_point x y (10, 10)))"

text \<open>A workspace holding one node, at the logical origin.\<close>

definition origin_ws :: workspace where
  "origin_ws = empty_ws\<lparr>ws_nodes := [(1, plain_node 0 0 [])], ws_parent := [(1, None)],
      ws_root_id := Some 1, ws_next_id := 2, ws_palette_index := 1\<rparr>"

text \<open>Whether a point lies on the ellipse inscribed in a bounding box
  \<open>(x0, y0, x1, y1)\<close>, the oval that \<open>_draw_node\<close> draws from \<open>_node_bbox\<close>.\<close>

definition on_bbox_ellipse :: "real \<times> real \<times> real \<times> real \<Rightarrow> point \<Rightarrow> bool" where
  "on_bbox_ellipse bbox p =
     (let x0 = fst bbox; y0 = fst (snd bbox);
          x1 = fst (snd (snd bbox)); y1 = snd (snd (snd bbox));
          cx = (x0 + x1) / 2; cy = (y0 + y1) / 2;
          a = (x1 - x0) / 2; b = (y1 - y0) / 2
      in ((fst p - cx) / a) ^ 2 + ((snd p - cy) / b) ^ 2 = 1)"

text \<open>A parent whose text made it twice as wide as the default node, and a
  child to its right.\<close>

definition wide_ws :: workspace where
  "wide_ws = empty_ws\<lparr>ws_nodes := [(1, (plain_node 0 0 [2])\<lparr>n_w := Some 320\<rparr>),
                                   (2, plain_node 400 0 [])],
      ws_parent := [(1, None), (2, Some 1)], ws_root_id := Some 1, ws_next_id := 3,
      ws_palette_index := 2\<rparr>"

section \<open>Verified properties\<close>

subsection \<open>Redrawing touches the edge-offset memory only\<close>

lemma render_edge_frame:
  "render_edge ws pid cid drawn = Inr r \<Longrightarrow>
     fst r = ws\<lparr>ws_edge_offsets := ws_edge_offsets (fst r)\<rparr>"
  by (auto simp: render_edge_def Let_def split: sum.splits option.splits if_splits)

lemma render_edges_frame:
  "render_edges ws es drawn = Inr r \<Longrightarrow>
     fst r = ws\<lparr>ws_edge_offsets := ws_edge_offsets (fst r)\<rparr>"
proof (induction es arbitrary: ws drawn)
  case Nil
  then show ?case by auto
next
  case (Cons e es)
  from Cons.prems obtain r1 where r1: "render_edge ws (fst e) (snd e) drawn = Inr r1"
    and rest: "render_edges (fst r1) es (snd r1) = Inr r"
    by (auto split: sum.splits)
  have a: "fst r1 = ws\<lparr>ws_edge_offsets := ws_edge_offsets (fst r1)\<rparr>"
    using render_edge_frame [OF r1] .
  have b: "fst r = (fst r1)\<lparr>ws_edge_offsets := ws_edge_offsets (fst r)\<rparr>"
    using Cons.IH [OF rest] .
  show ?case by (subst b, subst a) simp
qed

lemma redraw_frame:
  "redraw ws = Inr ws' \<Longrightarrow> ws' = ws\<lparr>ws_edge_offsets := ws_edge_offsets ws'\<rparr>"
proof -
  assume "redraw ws = Inr ws'"
  then obtain r where r: "render_edges (ws\<lparr>ws_edge_offsets :=
      filter (\<lambda>kv. fst kv \<in> set (edges ws)) (ws_edge_offsets ws)\<rparr>) (edges ws) [] = Inr r"
    and w: "ws' = fst r"
    by (auto simp: redraw_def Let_def split: sum.splits)
  show ?thesis using render_edges_frame [OF r] w by simp
qed

lemma redraw_no_edges: "edges ws = [] \<Longrightarrow> redraw ws = Inr (ws\<lparr>ws_edge_offsets := []\<rparr>)"
  by (simp add: redraw_def)

subsection \<open>Zoom\<close>

lemma zoom_view_props:
  assumes "0 < ws_scale ws"
  shows "(let new_scale = max ZOOM_MIN (min ZOOM_MAX (ws_scale ws * factor));
         org = zoom_origin origin canvas_size
     in ZOOM_MIN \<le> new_scale \<and> new_scale \<le> ZOOM_MAX
        \<and> (if \<bar>new_scale - ws_scale ws\<bar> < 1 / 1000
            then zoom_view factor origin canvas_size ws = None
            else (\<exists>ws1. zoom_view factor origin canvas_size ws = Some ws1
                   \<and> ws_scale ws1 = new_scale
                   \<and> from_canvas_point ws1 (fst org) (snd org)
                       = from_canvas_point ws (fst org) (snd org))))"
  using assms
  apply (simp add: Let_def zoom_view_def zoom_origin_def from_canvas_point_def ZOOM_MIN_def
      ZOOM_MAX_def split: option.splits)
  apply (auto simp: max_def min_def field_simps)
  done

text \<open>
  Claim C6 (zoom-to-cursor).  For a workspace with positive scale, any factor and
  any origin, the new scale is the old one times the factor clamped to
  \<open>[0.4, 2.5]\<close>.  When it differs from the old scale by less than \<open>0.001\<close>,
  \<open>zoom\<close> returns the workspace as it was.  Otherwise the scale becomes the
  clamped value and the origin maps to the same logical point before and after,
  in real arithmetic; the redraw that ends \<open>zoom\<close> changes neither.
\<close>

theorem zoom_to_cursor:
  assumes "0 < ws_scale ws"
  shows "(let new_scale = max ZOOM_MIN (min ZOOM_MAX (ws_scale ws * factor));
         org = zoom_origin origin canvas_size
     in ZOOM_MIN = 4 / 10 \<and> ZOOM_MAX = 25 / 10
        \<and> ZOOM_MIN \<le> new_scale \<and> new_scale \<le> ZOOM_MAX
        \<and> (if \<bar>new_scale - ws_scale ws\<bar> < 1 / 1000
            then zoom factor origin canvas_size ws = Inr ws
            else (\<exists>ws1. zoom_view factor origin canvas_size ws = Some ws1
                   \<and> zoom factor origin canvas_size ws = redraw ws1
                   \<and> ws_scale ws1 = new_scale
                   \<and> from_canvas_point ws1 (fst org) (snd org)
                       = from_canvas_point ws (fst org) (snd org)
                   \<and> (\<forall>ws'. redraw ws1 = Inr ws' \<longrightarrow>
                         ws_scale ws' = new_scale
                       \<and> from_canvas_point ws' (fst org) (snd org)
                           = from_canvas_point ws (fst org) (snd org)))))"
proof -
  have frame: "ws_scale ws' = ws_scale ws1
      \<and> from_canvas_point ws' a b = from_canvas_point ws1 a b"
    if "redraw ws1 = Inr ws'" for ws1 ws' a b
    by (subst (1 2) redraw_frame [OF that]) (simp add: from_canvas_point_def)
  show ?thesis
    using zoom_view_props [OF assms, of factor origin canvas_size]
    by (auto simp: Let_def zoom_def ZOOM_MIN_def ZOOM_MAX_def frame split: if_splits)
qed

theorem zoom_to_cursor_witness:
  "0 < ws_scale empty_ws
   \<and> zoom 2 (Some (100, 50)) (800, 600) empty_ws
       = Inr (empty_ws\<lparr>ws_offset_x := - 100, ws_offset_y := - 50, ws_scale := 2\<rparr>)
   \<and> from_canvas_point (empty_ws\<lparr>ws_offset_x := - 100, ws_offset_y := - 50, ws_scale := 2\<rparr>) 100 50
       = from_canvas_point empty_ws 100 50"
  using zoom_to_cursor [of empty_ws 2 "Some (100, 50)" "(800, 600)"]
  by (simp add: empty_ws_def zoom_def zoom_view_def zoom_origin_def Let_def ZOOM_MIN_def
      ZOOM_MAX_def redraw_def edges_def from_canvas_point_def)

subsection \<open>Candidate search of the edge router\<close>

lemma edge_offset_candidates_eq:
  "edge_offset_candidates base =
     [base + 0, base + 20, base - 20, base + 40, base - 40, base + 60, base - 60,
      base + 80, base - 80]"
  by (simp add: edge_offset_candidates_def edge_offset_steps_def Let_def)

lemma edge_endpoints_defined:
  assumes "map_of (ws_nodes ws) pid = Some pn" and "map_of (ws_nodes ws) cid = Some cn"
  shows "\<exists>se. edge_endpoints ws pid cid = Inr se"
  using assms
  by (simp add: edge_endpoints_def node_center_def edge_exit_point_def Let_def)

lemma edge_control_points_defined:
  assumes "map_of (ws_nodes ws) pid = Some pn"
  shows "edge_control_points ws pid cid s e off
           = Inr (projr (edge_control_points ws pid cid s e off))"
  using assms
  by (simp add: edge_control_points_def children_of_def)

lemma try_candidates_find:
  assumes "\<And>off. edge_control_points ws pid cid s e off = Inr (cp off)"
  shows "try_candidates ws pid cid s e drawn cands =
           Inr (map_option (\<lambda>off. (sample_edge_points s (fst (cp off)) (snd (cp off)) e 32, off))
                  (find (\<lambda>off. \<not> path_intersects
                            (sample_edge_points s (fst (cp off)) (snd (cp off)) e 32) drawn s e)
                        cands))"
  by (induction cands) (simp_all add: assms Let_def)

text \<open>
  Claim C2 (edge candidate search).  For an edge whose two nodes exist, with
  \<open>base\<close> the remembered offset of (parent, child) or 0, the offsets tried are
  \<open>base + 0, + 20, - 20, + 40, - 40, + 60, - 60, + 80, - 80\<close> in this order; the
  first whose 32-step polyline crosses no path drawn before (paths sharing an
  endpoint within tolerance skipped) is accepted, and \<open>base - 80\<close> is taken
  without an error when there is none; the accepted offset is stored under
  (parent, child) and the polyline joins the drawn paths.
\<close>

theorem edge_candidate_search:
  assumes "map_of (ws_nodes ws) pid = Some pn" and "map_of (ws_nodes ws) cid = Some cn"
  shows "\<exists>startp endp cp.
           edge_endpoints ws pid cid = Inr (startp, endp)
         \<and> (\<forall>off. edge_control_points ws pid cid startp endp off = Inr (cp off))
         \<and> (let base = remembered_offset ws pid cid;
                 candidates = [base + 0, base + 20, base - 20, base + 40, base - 40,
                               base + 60, base - 60, base + 80, base - 80];
                 poly = (\<lambda>off. sample_edge_points startp (fst (cp off)) (snd (cp off)) endp 32);
                 accepted = (case find (\<lambda>off. \<not> path_intersects (poly off) drawn startp endp)
                                    candidates of
                               Some off \<Rightarrow> off
                             | None \<Rightarrow> base - 80)
             in edge_offset_candidates base = candidates
              \<and> render_edge ws pid cid drawn =
                  Inr (ws\<lparr>ws_edge_offsets := AList.update (pid, cid) accepted (ws_edge_offsets ws)\<rparr>,
                       drawn @ [\<lparr>dp_points = poly accepted, dp_start = startp, dp_end = endp\<rparr>])
              \<and> map_of (AList.update (pid, cid) accepted (ws_edge_offsets ws)) (pid, cid)
                  = Some accepted)"
proof -
  from edge_endpoints_defined [OF assms] obtain startp endp
    where se: "edge_endpoints ws pid cid = Inr (startp, endp)" by force
  define cp where "cp = (\<lambda>off. projr (edge_control_points ws pid cid startp endp off))"
  have cp: "\<And>off. edge_control_points ws pid cid startp endp off = Inr (cp off)"
    unfolding cp_def using edge_control_points_defined [OF assms(1)] .
  define base where "base = remembered_offset ws pid cid"
  have cands: "edge_offset_candidates base =
     [base + 0, base + 20, base - 20, base + 40, base - 40, base + 60, base - 60,
      base + 80, base - 80]" by (rule edge_offset_candidates_eq)
  have tc: "try_candidates ws pid cid startp endp drawn (edge_offset_candidates base) =
           Inr (map_option (\<lambda>off. (sample_edge_points startp (fst (cp off)) (snd (cp off)) endp 32, off))
                  (find (\<lambda>off. \<not> path_intersects
                            (sample_edge_points startp (fst (cp off)) (snd (cp off)) endp 32)
                            drawn startp endp)
                        (edge_offset_candidates base)))"
    by (rule try_candidates_find [OF cp])
  have ne: "edge_offset_candidates base \<noteq> []"
    and la: "last (edge_offset_candidates base) = base - 80"
    by (simp_all add: cands)
  have re: "render_edge ws pid cid drawn =
      (let poly = (\<lambda>off. sample_edge_points startp (fst (cp off)) (snd (cp off)) endp 32);
           accepted = (case find (\<lambda>off. \<not> path_intersects (poly off) drawn startp endp)
                                    (edge_offset_candidates base) of
                               Some off \<Rightarrow> off
                             | None \<Rightarrow> base - 80)
       in Inr (ws\<lparr>ws_edge_offsets := AList.update (pid, cid) accepted (ws_edge_offsets ws)\<rparr>,
                       drawn @ [\<lparr>dp_points = poly accepted, dp_start = startp, dp_end = endp\<rparr>]))"
    unfolding render_edge_def se
    apply (simp only: sum.case Let_def fst_conv snd_conv)
    apply (fold remembered_offset_def)
    apply (fold base_def)
    apply (simp only: tc)
    apply (cases "find (\<lambda>off. \<not> path_intersects
                            (sample_edge_points startp (fst (cp off)) (snd (cp off)) endp 32)
                            drawn startp endp)
                        (edge_offset_candidates base)")
     apply (simp add: ne la cp)
    apply simp
    done
  show ?thesis
    apply (rule exI [of _ startp], rule exI [of _ endp], rule exI [of _ cp])
    apply (intro conjI)
      apply (rule se)
     apply (simp add: cp)
    apply (fold base_def)
    apply (simp only: Let_def)
    apply (intro conjI)
      apply (rule cands)
     apply (simp only: re Let_def cands)
    apply (simp add: AList.update_conv')
    done
qed

theorem edge_candidate_search_witness:
  "map_of (ws_nodes pair_ws) 1 = Some (plain_node 0 0 [2])
   \<and> map_of (ws_nodes pair_ws) 2 = Some (plain_node 300 0 [])
   \<and> (\<exists>r. render_edge pair_ws 1 2 [] = Inr r
          \<and> map_of (ws_edge_offsets (fst r)) (1, 2) = Some 0
          \<and> length (snd r) = 1)"
proof -
  have a: "map_of (ws_nodes pair_ws) 1 = Some (plain_node 0 0 [2])"
    and b: "map_of (ws_nodes pair_ws) 2 = Some (plain_node 300 0 [])"
    by (simp_all add: pair_ws_def empty_ws_def)
  have pi: "path_intersects pts [] s e = False" for pts s e
    by (simp add: path_intersects_def)
  have ro: "remembered_offset pair_ws 1 2 = 0"
    by (simp add: remembered_offset_def pair_ws_def empty_ws_def)
  from edge_candidate_search [OF a b, of "[]"] obtain startp endp cp
    where "render_edge pair_ws 1 2 [] =
       Inr (pair_ws\<lparr>ws_edge_offsets := AList.update (1, 2) 0 (ws_edge_offsets pair_ws)\<rparr>,
            [] @ [\<lparr>dp_points = sample_edge_points startp (fst (cp 0)) (snd (cp 0)) endp 32,
                   dp_start = startp, dp_end = endp\<rparr>])"
    unfolding Let_def ro pi by (elim exE conjE) (simp only: find.simps not_False_eq_True if_True option.case add_0)
  then have "\<exists>r. render_edge pair_ws 1 2 [] = Inr r
          \<and> map_of (ws_edge_offsets (fst r)) (1, 2) = Some 0
          \<and> length (snd r) = 1"
    by (simp add: AList.update_conv')
  with a b show ?thesis by (intro conjI)
qed

subsection \<open>Free-position finder\<close>

lemma ring_one: "ring 1 = [(-1,-1), (-1,0), (-1,1), (0,-1), (0,1), (1,-1), (1,0), (1,1)]"
  by (simp add: ring_def upto_rec1)

lemma ring_cells_head: "ring_cells = ring 1 @ concat (map ring [2 .. 8])"
  by (simp add: ring_cells_def upto_rec1)

lemma free_single:
  "ws_nodes ws = [(k, nd)] \<Longrightarrow> n_x nd = 0 \<Longrightarrow> n_y nd = 0 \<Longrightarrow>
     is_position_free ws a b = (\<not> (\<bar>a\<bar> < 178 \<and> \<bar>b\<bar> < 74))"
  by (simp add: is_position_free_def Let_def NODE_W_def NODE_H_def NODE_MARGIN_def)

lemma first_free_find:
  "first_free ws x y cells =
     map_option (grid_point x y)
       (find (\<lambda>cell. is_position_free ws (fst (grid_point x y cell)) (snd (grid_point x y cell))) cells)"
  by (induction cells) (simp_all add: Let_def)

text \<open>
  Claim C7 (free-position finder).  With one node, at \<open>(0, 0)\<close>, and a candidate
  closer to it than \<open>NODE_W + NODE_MARGIN\<close> horizontally and
  \<open>NODE_H + NODE_MARGIN\<close> vertically, the point returned is free and is the grid
  point \<open>candidate + (dx * (NODE_W + HORIZ_GAP), dy * (NODE_H + VERT_GAP))\<close> of the
  first free cell \<open>(dx, dy)\<close> of the ring enumeration (radius ascending, \<open>dx\<close>
  before \<open>dy\<close>), whose Chebyshev distance lies between 1 and 8.
\<close>

theorem free_position_single_node:
  assumes "ws_nodes ws = [(k, nd)]" and "n_x nd = 0" and "n_y nd = 0"
    and "\<bar>x\<bar> < NODE_W + NODE_MARGIN" and "\<bar>y\<bar> < NODE_H + NODE_MARGIN"
  shows "\<exists>cell. find (\<lambda>c. is_position_free ws (fst (grid_point x y c)) (snd (grid_point x y c)))
                   ring_cells = Some cell
           \<and> find_free_position ws x y = grid_point x y cell
           \<and> grid_point x y cell
               = (x + real_of_int (fst cell) * (NODE_W + HORIZ_GAP),
                  y + real_of_int (snd cell) * (NODE_H + VERT_GAP))
           \<and> 1 \<le> max \<bar>fst cell\<bar> \<bar>snd cell\<bar> \<and> max \<bar>fst cell\<bar> \<bar>snd cell\<bar> \<le> 8
           \<and> is_position_free ws (fst (find_free_position ws x y))
                (snd (find_free_position ws x y))"
proof -
  have fr: "is_position_free ws a b = (\<not> (\<bar>a\<bar> < 178 \<and> \<bar>b\<bar> < 74))" for a b
    using free_single [OF assms(1-3)] .
  have xb: "\<bar>x\<bar> < 178" and yb: "\<bar>y\<bar> < 74"
    using assms(4,5) by (simp_all add: NODE_W_def NODE_H_def NODE_MARGIN_def)
  have occ: "\<not> is_position_free ws x y" using xb yb by (simp add: fr)
  have gp: "grid_point x y c = (x + real_of_int (fst c) * 220, y + real_of_int (snd c) * 92)" for c
    by (simp add: grid_point_def NODE_W_def NODE_H_def HORIZ_GAP_def VERT_GAP_def)
  let ?P = "\<lambda>c. is_position_free ws (fst (grid_point x y c)) (snd (grid_point x y c))"
  have cell: "find ?P ring_cells = Some (-1, -1) \<or> find ?P ring_cells = Some (-1, 1)"
    using xb yb unfolding ring_cells_head ring_one by (simp add: fr gp) argo
  then obtain cell where c: "find ?P ring_cells = Some cell" and cc: "cell = (-1, -1) \<or> cell = (-1, 1)"
    by auto
  have res: "find_free_position ws x y = grid_point x y cell"
    by (simp add: find_free_position_def occ first_free_find c)
  have free: "?P cell" using c by (auto simp: find_Some_iff)
  show ?thesis
    apply (rule exI [of _ cell])
    apply (intro conjI)
         apply (rule c)
        apply (rule res)
       apply (simp add: grid_point_def)
    using cc apply auto[2]
    using free res apply simp
    done
qed

theorem free_position_single_node_witness:
  "ws_nodes origin_ws = [(1, plain_node 0 0 [])]
   \<and> n_x (plain_node 0 0 []) = 0 \<and> n_y (plain_node 0 0 []) = 0
   \<and> \<bar>10 :: real\<bar> < NODE_W + NODE_MARGIN \<and> \<bar>5 :: real\<bar> < NODE_H + NODE_MARGIN
   \<and> find_free_position origin_ws 10 5 = (- 210, - 87)
   \<and> is_position_free origin_ws (- 210) (- 87)"
proof -
  have h: "ws_nodes origin_ws = [(1, plain_node 0 0 [])]"
    "n_x (plain_node 0 0 []) = 0" "n_y (plain_node 0 0 []) = 0"
    "\<bar>10 :: real\<bar> < NODE_W + NODE_MARGIN" "\<bar>5 :: real\<bar> < NODE_H + NODE_MARGIN"
    by (simp_all add: origin_ws_def empty_ws_def plain_node_def NODE_W_def NODE_H_def
        NODE_MARGIN_def)
  have fr: "is_position_free origin_ws a b = (\<not> (\<bar>a\<bar> < 178 \<and> \<bar>b\<bar> < 74))" for a b
    using free_single [OF h(1-3)] .
  have r: "find_free_position origin_ws 10 5 = (- 210, - 87)"
    by (simp add: find_free_position_def fr ring_cells_head ring_one grid_point_def Let_def
        NODE_W_def NODE_H_def HORIZ_GAP_def VERT_GAP_def)
  from free_position_single_node [OF h] h r show ?thesis
    by (simp add: fr)
qed

end
